theory Spec2Isabelle
  imports Main "HOL-Library.Word"
begin

section \<open>The platform layer of ping.cpp\<close>

text \<open>
  The example \<^verbatim>\<open>c-abi-libp2p/examples/cpp/ping.cpp\<close> talks to the operating system
  through three macros, \<^verbatim>\<open>LOAD_LIB\<close>, \<^verbatim>\<open>GET_PROC\<close> and \<^verbatim>\<open>CLOSE_LIB\<close>, chosen by
  \<^verbatim>\<open>#ifdef WIN32\<close>. A pointer is modelled by its address, a natural number, and the
  null pointer is address 0. The operating system is a parameter of the model: what the
  loader answers for a file name and what symbol lookup answers for a handle and a symbol
  name. Everything the program does to the outside world is recorded, in order, in a trace
  of events.
\<close>

datatype platform = WIN32 | POSIX

type_synonym ptr = nat

type_synonym LibHandle = ptr

type_synonym cint = "32 word"

text \<open>
  \<^verbatim>\<open>constexpr auto LIB_NAME\<close>: one initialiser per branch of the \<^verbatim>\<open>#ifdef\<close>. (In the
  source the declaration of the non-Windows branch has no terminating semicolon; the model
  takes the initialiser as it is written.)
\<close>

definition LIB_NAME :: "platform \<Rightarrow> string" where
  "LIB_NAME p = (case p of WIN32 \<Rightarrow> ''cabi_rust_libp2p.dll'' | POSIX \<Rightarrow> ''cabi_rust_libp2p.so'')"

record os =
  LOAD_LIB :: "string \<Rightarrow> LibHandle"
  GET_PROC :: "LibHandle \<Rightarrow> string \<Rightarrow> ptr"

datatype event =
    Load string
  | Resolve LibHandle string
  | Close LibHandle
  | Cerr string
  | Invoke ptr

text \<open>
  \<open>Load path\<close> is a call of \<^verbatim>\<open>LOAD_LIB(path)\<close>, \<open>Resolve lib name\<close> a call of
  \<^verbatim>\<open>GET_PROC(lib, name)\<close>, \<open>Close lib\<close> a call of \<^verbatim>\<open>CLOSE_LIB(lib)\<close>, \<open>Cerr s\<close> the
  text one statement writes to \<^verbatim>\<open>std::cerr\<close>, and \<open>Invoke f\<close> a call through the
  function pointer \<open>f\<close>. Each action below takes the trace so far and returns its result
  with the extended trace.
\<close>

definition load_lib :: "os \<Rightarrow> string \<Rightarrow> event list \<Rightarrow> LibHandle \<times> event list" where
  "load_lib sys path t = (LOAD_LIB sys path, t @ [Load path])"

definition get_proc :: "os \<Rightarrow> LibHandle \<Rightarrow> string \<Rightarrow> event list \<Rightarrow> ptr \<times> event list" where
  "get_proc sys lib name t = (GET_PROC sys lib name, t @ [Resolve lib name])"

definition close_lib :: "LibHandle \<Rightarrow> event list \<Rightarrow> event list" where
  "close_lib lib t = t @ [Close lib]"

definition cerr :: "string \<Rightarrow> event list \<Rightarrow> event list" where
  "cerr s t = t @ [Cerr s]"

definition is_Load :: "event \<Rightarrow> bool" where
  "is_Load e = (case e of Load _ \<Rightarrow> True | _ \<Rightarrow> False)"

definition is_Close :: "event \<Rightarrow> bool" where
  "is_Close e = (case e of Close _ \<Rightarrow> True | _ \<Rightarrow> False)"

definition is_Cerr :: "event \<Rightarrow> bool" where
  "is_Cerr e = (case e of Cerr _ \<Rightarrow> True | _ \<Rightarrow> False)"

definition is_Resolve :: "event \<Rightarrow> bool" where
  "is_Resolve e = (case e of Resolve _ _ \<Rightarrow> True | _ \<Rightarrow> False)"

definition is_Invoke :: "event \<Rightarrow> bool" where
  "is_Invoke e = (case e of Invoke _ \<Rightarrow> True | _ \<Rightarrow> False)"

section \<open>Status codes (lines 24-31)\<close>

definition CABI_STATUS_SUCCESS :: cint where
  "CABI_STATUS_SUCCESS = 0"

definition CABI_STATUS_NULL_POINTER :: cint where
  "CABI_STATUS_NULL_POINTER = 1"

definition CABI_STATUS_INVALID_ARGUMENT :: cint where
  "CABI_STATUS_INVALID_ARGUMENT = 2"

definition CABI_STATUS_INTERNAL_ERROR :: cint where
  "CABI_STATUS_INTERNAL_ERROR = 3"

text \<open>
  The \<^verbatim>\<open>constexpr int\<close> declarations of the file whose names start with
  \<^verbatim>\<open>CABI_STATUS_\<close>, in the order of the source, each with its value.
\<close>

definition status_constants :: "(string \<times> cint) list" where
  "status_constants =
     [(''CABI_STATUS_SUCCESS'', CABI_STATUS_SUCCESS),
      (''CABI_STATUS_NULL_POINTER'', CABI_STATUS_NULL_POINTER),
      (''CABI_STATUS_INVALID_ARGUMENT'', CABI_STATUS_INVALID_ARGUMENT),
      (''CABI_STATUS_INTERNAL_ERROR'', CABI_STATUS_INTERNAL_ERROR)]"

section \<open>The ABI table and loadAbi (lines 33-58)\<close>

type_synonym InitTracingFunc = ptr
type_synonym NewNodeFunc = ptr
type_synonym ListenNodeFunc = ptr
type_synonym DialNodeFunc = ptr
type_synonym FreeNodeFunc = ptr

record CabiRustLibp2p =
  InitTracing :: InitTracingFunc
  NewNode :: NewNodeFunc
  ListenNode :: ListenNodeFunc
  DialNode :: DialNodeFunc
  FreeNode :: FreeNodeFunc

text \<open>
  \<^verbatim>\<open>CabiRustLibp2p abi;\<close> value-initialises every member (\<^verbatim>\<open>{}\<close>): all five are null.
\<close>

definition abi_init :: CabiRustLibp2p where
  "abi_init = \<lparr>InitTracing = 0, NewNode = 0, ListenNode = 0, DialNode = 0, FreeNode = 0\<rparr>"

text \<open>
  \<^verbatim>\<open>loadAbi\<close> assigns the five fields one after the other, each from one symbol lookup
  (\<^verbatim>\<open>reinterpret_cast\<close> keeps the address), and returns the conjunction of the five
  pointers converted to \<^verbatim>\<open>bool\<close> (non-null). The table is passed by reference: the model
  returns the updated table beside the result.
\<close>

definition loadAbi ::
  "os \<Rightarrow> LibHandle \<Rightarrow> CabiRustLibp2p \<Rightarrow> event list \<Rightarrow> bool \<times> CabiRustLibp2p \<times> event list" where
  "loadAbi sys lib abi t0 =
     (let (f1, t1) = get_proc sys lib ''cabi_init_tracing'' t0;
          abi1 = abi\<lparr>InitTracing := f1\<rparr>;
          (f2, t2) = get_proc sys lib ''cabi_node_new'' t1;
          abi2 = abi1\<lparr>NewNode := f2\<rparr>;
          (f3, t3) = get_proc sys lib ''cabi_node_listen'' t2;
          abi3 = abi2\<lparr>ListenNode := f3\<rparr>;
          (f4, t4) = get_proc sys lib ''cabi_node_dial'' t3;
          abi4 = abi3\<lparr>DialNode := f4\<rparr>;
          (f5, t5) = get_proc sys lib ''cabi_node_free'' t4;
          abi5 = abi4\<lparr>FreeNode := f5\<rparr>
      in (InitTracing abi5 \<noteq> 0 \<and> NewNode abi5 \<noteq> 0 \<and>
          ListenNode abi5 \<noteq> 0 \<and> DialNode abi5 \<noteq> 0 \<and> FreeNode abi5 \<noteq> 0,
          abi5, t5))"

section \<open>The driver (lines 60-82)\<close>

text \<open>
  \<^verbatim>\<open>main\<close> returns the process exit code and the trace of the run. Line 71 reads
  \<^verbatim>\<open>if (loadAbi(lib, abi))\<close>: the message of line 73 is written when \<^verbatim>\<open>loadAbi\<close>
  returns \<^verbatim>\<open>true\<close>. Nothing stands between that statement and \<^verbatim>\<open>CLOSE_LIB(lib)\<close> but
  a comment.
\<close>

definition main :: "platform \<Rightarrow> os \<Rightarrow> cint \<times> event list" where
  "main p sys =
     (let (lib, t1) = load_lib sys (LIB_NAME p) [] in
      if lib = 0 then
        (1, cerr (''Error on loading Lib:'' @ LIB_NAME p @ [CHR 0x0A]) t1)
      else
        let (valid, abi, t2) = loadAbi sys lib abi_init t1;
            t3 = (if valid
                  then cerr (''Missing required functions in library '' @ [CHR 0x0A]) t2
                  else t2);
            t4 = close_lib lib t3
        in (0, t4))"

text \<open>The five symbol names, in the order \<^verbatim>\<open>loadAbi\<close> looks them up.\<close>

definition resolutions :: "LibHandle \<Rightarrow> event list" where
  "resolutions lib =
     [Resolve lib ''cabi_init_tracing'', Resolve lib ''cabi_node_new'',
      Resolve lib ''cabi_node_listen'', Resolve lib ''cabi_node_dial'',
      Resolve lib ''cabi_node_free'']"

text \<open>Whether all five lookups of a handle answer a non-null address.\<close>

definition all_resolved :: "os \<Rightarrow> LibHandle \<Rightarrow> bool" where
  "all_resolved sys lib =
     (GET_PROC sys lib ''cabi_init_tracing'' \<noteq> 0 \<and> GET_PROC sys lib ''cabi_node_new'' \<noteq> 0 \<and>
      GET_PROC sys lib ''cabi_node_listen'' \<noteq> 0 \<and> GET_PROC sys lib ''cabi_node_dial'' \<noteq> 0 \<and>
      GET_PROC sys lib ''cabi_node_free'' \<noteq> 0)"

section \<open>Concrete operating systems\<close>

text \<open>
  \<open>os_absent\<close>: the library file is not found. \<open>os_full\<close>: the library loads at handle
  7 and exports every symbol. \<open>os_no_free\<close>: it loads at handle 7 and exports all but
  \<^verbatim>\<open>cabi_node_free\<close>. \<open>os_empty\<close>: it loads at handle 7 and exports nothing.
\<close>

definition os_absent :: os where
  "os_absent = \<lparr>LOAD_LIB = (\<lambda>path. 0), GET_PROC = (\<lambda>lib name. 0)\<rparr>"

definition exports_full :: "string \<Rightarrow> ptr" where
  "exports_full name =
     (if name = ''cabi_init_tracing'' then 11
      else if name = ''cabi_node_new'' then 12
      else if name = ''cabi_node_listen'' then 13
      else if name = ''cabi_node_dial'' then 14
      else if name = ''cabi_node_free'' then 15
      else 0)"

definition os_full :: os where
  "os_full = \<lparr>LOAD_LIB = (\<lambda>path. 7), GET_PROC = (\<lambda>lib name. if lib = 7 then exports_full name else 0)\<rparr>"

definition os_no_free :: os where
  "os_no_free =
     \<lparr>LOAD_LIB = (\<lambda>path. 7),
      GET_PROC = (\<lambda>lib name. if lib = 7 \<and> name \<noteq> ''cabi_node_free'' then exports_full name else 0)\<rparr>"

definition os_empty :: os where
  "os_empty = \<lparr>LOAD_LIB = (\<lambda>path. 7), GET_PROC = (\<lambda>lib name. 0)\<rparr>"

section \<open>Basic facts\<close>

lemma loadAbi_eq:
  "loadAbi sys lib abi t =
     (all_resolved sys lib,
      \<lparr>InitTracing = GET_PROC sys lib ''cabi_init_tracing'',
       NewNode = GET_PROC sys lib ''cabi_node_new'',
       ListenNode = GET_PROC sys lib ''cabi_node_listen'',
       DialNode = GET_PROC sys lib ''cabi_node_dial'',
       FreeNode = GET_PROC sys lib ''cabi_node_free''\<rparr>,
      t @ resolutions lib)"
  by (simp add: loadAbi_def get_proc_def all_resolved_def resolutions_def)

lemma main_load_failed:
  assumes "LOAD_LIB sys (LIB_NAME p) = 0"
  shows "main p sys = (1, [Load (LIB_NAME p), Cerr (''Error on loading Lib:'' @ LIB_NAME p @ [CHR 0x0A])])"
  using assms by (simp add: main_def load_lib_def cerr_def)

lemma main_loaded:
  assumes "LOAD_LIB sys (LIB_NAME p) \<noteq> 0"
  shows "main p sys =
     (0, Load (LIB_NAME p) # resolutions (LOAD_LIB sys (LIB_NAME p)) @
         (if all_resolved sys (LOAD_LIB sys (LIB_NAME p))
          then [Cerr (''Missing required functions in library '' @ [CHR 0x0A])] else []) @
         [Close (LOAD_LIB sys (LIB_NAME p))])"
  using assms by (simp add: main_def load_lib_def loadAbi_eq cerr_def close_lib_def)

lemma main_message_iff_loadAbi_true:
  assumes "LOAD_LIB sys (LIB_NAME p) \<noteq> 0"
  shows "Cerr (''Missing required functions in library '' @ [CHR 0x0A]) \<in> set (snd (main p sys))
     \<longleftrightarrow> fst (loadAbi sys (LOAD_LIB sys (LIB_NAME p)) abi_init [Load (LIB_NAME p)])"
  using assms by (simp add: main_loaded loadAbi_eq resolutions_def)

lemma os_full_all_resolved: "all_resolved os_full 7"
  by (simp add: all_resolved_def os_full_def exports_full_def)

lemma os_no_free_not_all_resolved: "\<not> all_resolved os_no_free 7"
  by (simp add: all_resolved_def os_no_free_def)

lemma os_empty_not_all_resolved: "\<not> all_resolved os_empty 7"
  by (simp add: all_resolved_def os_empty_def)

lemma main_os_full:
  "main POSIX os_full =
     (0, [Load ''cabi_rust_libp2p.so'',
          Resolve 7 ''cabi_init_tracing'', Resolve 7 ''cabi_node_new'',
          Resolve 7 ''cabi_node_listen'', Resolve 7 ''cabi_node_dial'',
          Resolve 7 ''cabi_node_free'',
          Cerr (''Missing required functions in library '' @ [CHR 0x0A]),
          Close 7])"
proof -
  have l: "LOAD_LIB os_full path = 7" for path
    by (simp add: os_full_def)
  then have "LOAD_LIB os_full (LIB_NAME POSIX) \<noteq> 0"
    by simp
  from main_loaded [OF this] show ?thesis
    by (simp add: l os_full_all_resolved resolutions_def LIB_NAME_def)
qed

lemma main_os_no_free:
  "main POSIX os_no_free =
     (0, [Load ''cabi_rust_libp2p.so'',
          Resolve 7 ''cabi_init_tracing'', Resolve 7 ''cabi_node_new'',
          Resolve 7 ''cabi_node_listen'', Resolve 7 ''cabi_node_dial'',
          Resolve 7 ''cabi_node_free'',
          Close 7])"
proof -
  have l: "LOAD_LIB os_no_free path = 7" for path
    by (simp add: os_no_free_def)
  then have "LOAD_LIB os_no_free (LIB_NAME POSIX) \<noteq> 0"
    by simp
  from main_loaded [OF this] show ?thesis
    by (simp add: l os_no_free_not_all_resolved resolutions_def LIB_NAME_def)
qed

section \<open>The status-code vocabulary\<close>

text \<open>
  C8. The status constants of the boundary are exactly four, named SUCCESS, NULL_POINTER,
  INVALID_ARGUMENT and INTERNAL_ERROR (with the prefix \<^verbatim>\<open>CABI_STATUS_\<close>), and their
  integer values 0, 1, 2, 3 are pairwise distinct.
\<close>

theorem status_constants_four_distinct:
  "length status_constants = 4 \<and>
   map fst status_constants =
     [''CABI_STATUS_SUCCESS'', ''CABI_STATUS_NULL_POINTER'',
      ''CABI_STATUS_INVALID_ARGUMENT'', ''CABI_STATUS_INTERNAL_ERROR''] \<and>
   map snd status_constants = [0, 1, 2, 3] \<and>
   distinct (map snd status_constants) \<and>
   distinct [CABI_STATUS_SUCCESS, CABI_STATUS_NULL_POINTER,
             CABI_STATUS_INVALID_ARGUMENT, CABI_STATUS_INTERNAL_ERROR]"
  by (simp add: status_constants_def CABI_STATUS_SUCCESS_def CABI_STATUS_NULL_POINTER_def
      CABI_STATUS_INVALID_ARGUMENT_def CABI_STATUS_INTERNAL_ERROR_def)

section \<open>Symbol resolution\<close>

text \<open>
  C2. \<^verbatim>\<open>loadAbi\<close> performs exactly five symbol lookups on the handle it is given, for
  the names \<^verbatim>\<open>cabi_init_tracing\<close>, \<^verbatim>\<open>cabi_node_new\<close>, \<^verbatim>\<open>cabi_node_listen\<close>,
  \<^verbatim>\<open>cabi_node_dial\<close> and \<^verbatim>\<open>cabi_node_free\<close> in this order, stores each answer in the
  field of the table that belongs to it, and returns true if and only if all five answers
  are non-null (so a single null answer makes it return false).
\<close>

theorem loadAbi_true_iff_all_five:
  "snd (snd (loadAbi sys lib abi t)) =
     t @ [Resolve lib ''cabi_init_tracing'', Resolve lib ''cabi_node_new'',
          Resolve lib ''cabi_node_listen'', Resolve lib ''cabi_node_dial'',
          Resolve lib ''cabi_node_free''] \<and>
   InitTracing (fst (snd (loadAbi sys lib abi t))) = GET_PROC sys lib ''cabi_init_tracing'' \<and>
   NewNode (fst (snd (loadAbi sys lib abi t))) = GET_PROC sys lib ''cabi_node_new'' \<and>
   ListenNode (fst (snd (loadAbi sys lib abi t))) = GET_PROC sys lib ''cabi_node_listen'' \<and>
   DialNode (fst (snd (loadAbi sys lib abi t))) = GET_PROC sys lib ''cabi_node_dial'' \<and>
   FreeNode (fst (snd (loadAbi sys lib abi t))) = GET_PROC sys lib ''cabi_node_free'' \<and>
   fst (loadAbi sys lib abi t) =
     (GET_PROC sys lib ''cabi_init_tracing'' \<noteq> 0 \<and> GET_PROC sys lib ''cabi_node_new'' \<noteq> 0 \<and>
      GET_PROC sys lib ''cabi_node_listen'' \<noteq> 0 \<and> GET_PROC sys lib ''cabi_node_dial'' \<noteq> 0 \<and>
      GET_PROC sys lib ''cabi_node_free'' \<noteq> 0)"
  by (simp add: loadAbi_eq resolutions_def all_resolved_def)

text \<open>
  C9. Whatever \<^verbatim>\<open>loadAbi\<close> returns and whatever the table held before, after the call
  the table is the record of the five lookup answers: every field is overwritten, the
  table does not depend on its previous content, and nothing in it records whether the
  call returned true or false.
\<close>

theorem loadAbi_table_postcondition:
  "fst (snd (loadAbi sys lib abi t)) =
     \<lparr>InitTracing = GET_PROC sys lib ''cabi_init_tracing'',
      NewNode = GET_PROC sys lib ''cabi_node_new'',
      ListenNode = GET_PROC sys lib ''cabi_node_listen'',
      DialNode = GET_PROC sys lib ''cabi_node_dial'',
      FreeNode = GET_PROC sys lib ''cabi_node_free''\<rparr> \<and>
   fst (snd (loadAbi sys lib abi t)) = fst (snd (loadAbi sys lib abi' t'))"
  by (simp add: loadAbi_eq)

text \<open>
  A run of \<^verbatim>\<open>loadAbi\<close> that returns false and leaves a partially populated table:
  four fields hold addresses, the fifth is null.
\<close>

lemma loadAbi_partial_table:
  "loadAbi os_no_free 7 abi_init [] =
     (False,
      \<lparr>InitTracing = 11, NewNode = 12, ListenNode = 13, DialNode = 14, FreeNode = 0\<rparr>,
      resolutions 7)"
  by (simp add: loadAbi_eq os_no_free_not_all_resolved)
     (simp add: os_no_free_def exports_full_def)

section \<open>The driver: load failure\<close>

text \<open>
  C4. When the loader returns a null handle, the run consists of the one load attempt and
  one error message on \<^verbatim>\<open>std::cerr\<close>, and the exit code is 1, which is not zero: no
  symbol is looked up, no function pointer is called and nothing is closed.
\<close>

theorem load_failure_reports_and_exits_1:
  assumes "LOAD_LIB sys (LIB_NAME p) = 0"
  shows "main p sys =
           (1, [Load (LIB_NAME p), Cerr (''Error on loading Lib:'' @ LIB_NAME p @ [CHR 0x0A])]) \<and>
         fst (main p sys) \<noteq> 0 \<and>
         filter is_Resolve (snd (main p sys)) = [] \<and>
         filter is_Invoke (snd (main p sys)) = [] \<and>
         filter is_Close (snd (main p sys)) = []"
  by (simp add: main_load_failed [OF assms] is_Resolve_def is_Invoke_def is_Close_def)

theorem load_failure_reports_and_exits_1_witness:
  "LOAD_LIB os_absent (LIB_NAME WIN32) = 0 \<and>
   main WIN32 os_absent =
     (1, [Load ''cabi_rust_libp2p.dll'',
          Cerr (''Error on loading Lib:cabi_rust_libp2p.dll'' @ [CHR 0x0A])]) \<and>
   filter is_Resolve (snd (main WIN32 os_absent)) = []"
proof -
  have h: "LOAD_LIB os_absent (LIB_NAME WIN32) = 0"
    by (simp add: os_absent_def)
  from load_failure_reports_and_exits_1 [OF h] h show ?thesis
    by (simp add: LIB_NAME_def is_Resolve_def)
qed

section \<open>The driver: library loaded\<close>

text \<open>
  C6. Whenever the loader returns a non-null handle, the exit code of the run is 0,
  whatever the symbol lookups answer and whether or not a message was written on the way.
\<close>

theorem loaded_exits_0:
  assumes "LOAD_LIB sys (LIB_NAME p) \<noteq> 0"
  shows "fst (main p sys) = 0"
  by (simp add: main_loaded [OF assms])

theorem loaded_exits_0_witness:
  "LOAD_LIB os_full (LIB_NAME POSIX) \<noteq> 0 \<and>
   Cerr (''Missing required functions in library '' @ [CHR 0x0A]) \<in> set (snd (main POSIX os_full)) \<and>
   fst (main POSIX os_full) = 0 \<and>
   LOAD_LIB os_empty (LIB_NAME POSIX) \<noteq> 0 \<and> fst (main POSIX os_empty) = 0"
proof -
  have h: "LOAD_LIB os_full (LIB_NAME POSIX) \<noteq> 0"
    by (simp add: os_full_def)
  have h': "LOAD_LIB os_empty (LIB_NAME POSIX) \<noteq> 0"
    by (simp add: os_empty_def)
  from loaded_exits_0 [OF h] loaded_exits_0 [OF h'] h h' show ?thesis
    by (simp add: main_os_full)
qed

text \<open>
  C7. In every run the library is closed exactly once if the loader returned a non-null
  handle, and that handle is the one closed, also when some symbol is missing; it is
  closed not at all if the loader returned null. The close, when there is one, is the
  last event of the run. Nothing acquired is leaked on any path, since the library handle
  is the only resource a run acquires: the trace has exactly one load, that of the
  platform's library name, and no call through a function pointer, so no node is ever
  created.
\<close>

theorem close_lib_once_iff_loaded:
  "filter is_Close (snd (main p sys)) =
     (if LOAD_LIB sys (LIB_NAME p) = 0 then [] else [Close (LOAD_LIB sys (LIB_NAME p))]) \<and>
   length (filter is_Close (snd (main p sys))) = (if LOAD_LIB sys (LIB_NAME p) = 0 then 0 else 1) \<and>
   (if LOAD_LIB sys (LIB_NAME p) = 0 then True
    else last (snd (main p sys)) = Close (LOAD_LIB sys (LIB_NAME p))) \<and>
   filter is_Load (snd (main p sys)) = [Load (LIB_NAME p)] \<and>
   filter is_Invoke (snd (main p sys)) = []"
proof (cases "LOAD_LIB sys (LIB_NAME p) = 0")
  case True
  then show ?thesis
    by (simp add: main_load_failed is_Close_def is_Load_def is_Invoke_def)
next
  case False
  then show ?thesis
    by (simp add: main_loaded resolutions_def is_Close_def is_Load_def is_Invoke_def)
qed

theorem close_lib_once_iff_loaded_witness:
  "filter is_Close (snd (main POSIX os_no_free)) = [Close 7] \<and>
   filter is_Close (snd (main POSIX os_full)) = [Close 7] \<and>
   filter is_Close (snd (main POSIX os_absent)) = [] \<and>
   filter is_Load (snd (main POSIX os_no_free)) = [Load ''cabi_rust_libp2p.so''] \<and>
   filter is_Load (snd (main POSIX os_absent)) = [Load ''cabi_rust_libp2p.so''] \<and>
   filter is_Invoke (snd (main POSIX os_no_free)) = [] \<and>
   filter is_Invoke (snd (main POSIX os_absent)) = []"
  using close_lib_once_iff_loaded [of POSIX os_no_free]
    close_lib_once_iff_loaded [of POSIX os_full]
    close_lib_once_iff_loaded [of POSIX os_absent]
  by (simp add: os_no_free_def os_full_def os_absent_def LIB_NAME_def)

text \<open>
  C10. No run of the driver calls through a function pointer: the trace of \<^verbatim>\<open>main\<close>
  holds no invocation at all, for every platform and operating system, so in particular
  none of the five table entries is called, before or after the library is closed, also
  when all five were resolved.
\<close>

theorem no_function_pointer_invoked:
  "Invoke f \<notin> set (snd (main p sys)) \<and> filter is_Invoke (snd (main p sys)) = []"
proof (cases "LOAD_LIB sys (LIB_NAME p) = 0")
  case True
  then show ?thesis
    by (simp add: main_load_failed is_Invoke_def)
next
  case False
  then show ?thesis
    by (simp add: main_loaded resolutions_def is_Invoke_def)
qed

section \<open>The driver: the test of line 71\<close>

text \<open>
  C1 asks for the missing-functions message exactly when \<^verbatim>\<open>loadAbi\<close> reports the table
  invalid. The driver does the opposite. With a library that exports all five symbols
  \<^verbatim>\<open>loadAbi\<close> returns true and the run writes the message; with a library that lacks
  \<^verbatim>\<open>cabi_node_free\<close> it returns false and the run writes nothing.
\<close>

theorem missing_message_written_when_table_valid:
  "fst (loadAbi os_full (LOAD_LIB os_full (LIB_NAME POSIX)) abi_init [Load (LIB_NAME POSIX)]) \<and>
   filter is_Cerr (snd (main POSIX os_full)) =
     [Cerr (''Missing required functions in library '' @ [CHR 0x0A])] \<and>
   \<not> fst (loadAbi os_no_free (LOAD_LIB os_no_free (LIB_NAME POSIX)) abi_init [Load (LIB_NAME POSIX)]) \<and>
   filter is_Cerr (snd (main POSIX os_no_free)) = []"
proof -
  have "LOAD_LIB os_full path = 7" "LOAD_LIB os_no_free path = 7" for path
    by (simp_all add: os_full_def os_no_free_def)
  then show ?thesis
    by (simp add: loadAbi_eq os_full_all_resolved os_no_free_not_all_resolved
        main_os_full main_os_no_free is_Cerr_def)
qed

section \<open>The driver: incomplete table\<close>

text \<open>
  The claim C3 as it is written (a single error is surfaced and the exit code is
  non-zero whenever the library loads and some symbol is missing) fails: with a library
  that loads and exports nothing, \<^verbatim>\<open>loadAbi\<close> returns false, the run writes nothing to
  \<^verbatim>\<open>std::cerr\<close> and the exit code is 0.
\<close>

theorem invalid_table_silent_exit_0_counterexample:
  "LOAD_LIB os_empty (LIB_NAME POSIX) \<noteq> 0 \<and>
   \<not> fst (loadAbi os_empty (LOAD_LIB os_empty (LIB_NAME POSIX)) abi_init [Load (LIB_NAME POSIX)]) \<and>
   filter is_Cerr (snd (main POSIX os_empty)) = [] \<and>
   fst (main POSIX os_empty) = 0"
proof -
  have l: "LOAD_LIB os_empty path = 7" for path
    by (simp add: os_empty_def)
  then have "LOAD_LIB os_empty (LIB_NAME POSIX) \<noteq> 0"
    by simp
  from main_loaded [OF this] show ?thesis
    by (simp add: l loadAbi_eq os_empty_not_all_resolved resolutions_def is_Cerr_def)
qed

text \<open>
  C3, amended. Whenever the library loads and \<^verbatim>\<open>loadAbi\<close> reports the table invalid,
  the run calls through no function pointer, closes the library handle exactly once, as
  its last action, and the exit code is 0.
\<close>

theorem invalid_table_teardown:
  assumes "LOAD_LIB sys (LIB_NAME p) \<noteq> 0"
    and "\<not> fst (loadAbi sys (LOAD_LIB sys (LIB_NAME p)) abi_init [Load (LIB_NAME p)])"
  shows "filter is_Invoke (snd (main p sys)) = [] \<and>
         filter is_Close (snd (main p sys)) = [Close (LOAD_LIB sys (LIB_NAME p))] \<and>
         last (snd (main p sys)) = Close (LOAD_LIB sys (LIB_NAME p)) \<and>
         fst (main p sys) = 0"
  by (simp add: main_loaded [OF assms(1)] resolutions_def is_Invoke_def is_Close_def)

theorem invalid_table_teardown_witness:
  "LOAD_LIB os_no_free (LIB_NAME WIN32) \<noteq> 0 \<and>
   \<not> fst (loadAbi os_no_free (LOAD_LIB os_no_free (LIB_NAME WIN32)) abi_init [Load (LIB_NAME WIN32)]) \<and>
   filter is_Invoke (snd (main WIN32 os_no_free)) = [] \<and>
   filter is_Close (snd (main WIN32 os_no_free)) = [Close 7] \<and>
   last (snd (main WIN32 os_no_free)) = Close 7 \<and>
   fst (main WIN32 os_no_free) = 0"
proof -
  have l: "LOAD_LIB os_no_free path = 7" for path
    by (simp add: os_no_free_def)
  have h1: "LOAD_LIB os_no_free (LIB_NAME WIN32) \<noteq> 0"
    by (simp add: l)
  have h2: "\<not> fst (loadAbi os_no_free (LOAD_LIB os_no_free (LIB_NAME WIN32)) abi_init
              [Load (LIB_NAME WIN32)])"
    by (simp add: l loadAbi_eq os_no_free_not_all_resolved)
  from invalid_table_teardown [OF h1 h2] h1 h2 show ?thesis
    by (simp add: l)
qed

section \<open>The driver: complete table\<close>

text \<open>
  The claim C5 as it is written (tracing is initialised, a node is created, listen and
  dial are performed and the node is destroyed between validation and release) fails:
  with a library that loads and exports all five symbols, the run is the load, the five
  lookups, one message and the close, with no call through any function pointer.
\<close>

theorem full_lifecycle_counterexample:
  "fst (loadAbi os_full (LOAD_LIB os_full (LIB_NAME POSIX)) abi_init [Load (LIB_NAME POSIX)]) \<and>
   main POSIX os_full =
     (0, [Load ''cabi_rust_libp2p.so'',
          Resolve 7 ''cabi_init_tracing'', Resolve 7 ''cabi_node_new'',
          Resolve 7 ''cabi_node_listen'', Resolve 7 ''cabi_node_dial'',
          Resolve 7 ''cabi_node_free'',
          Cerr (''Missing required functions in library '' @ [CHR 0x0A]),
          Close 7]) \<and>
   filter is_Invoke (snd (main POSIX os_full)) = []"
proof -
  have "LOAD_LIB os_full path = 7" for path
    by (simp add: os_full_def)
  then show ?thesis
    by (simp add: loadAbi_eq os_full_all_resolved main_os_full is_Invoke_def)
qed

text \<open>
  C5, amended. On the success path (the library loads and all five symbols resolve) the
  actions of the driver at the boundary are, in this order and with nothing else: load
  the library, look up the five symbols \<^verbatim>\<open>cabi_init_tracing\<close>, \<^verbatim>\<open>cabi_node_new\<close>,
  \<^verbatim>\<open>cabi_node_listen\<close>, \<^verbatim>\<open>cabi_node_dial\<close>, \<^verbatim>\<open>cabi_node_free\<close> on the loaded handle,
  close that handle. Tracing is not initialised and no node is created, used or
  destroyed. (Writes to \<^verbatim>\<open>std::cerr\<close> are left out of the sequence.)
\<close>

theorem success_path_order:
  assumes "LOAD_LIB sys (LIB_NAME p) \<noteq> 0"
    and "fst (loadAbi sys (LOAD_LIB sys (LIB_NAME p)) abi_init [Load (LIB_NAME p)])"
  shows "filter (\<lambda>e. \<not> is_Cerr e) (snd (main p sys)) =
           [Load (LIB_NAME p),
            Resolve (LOAD_LIB sys (LIB_NAME p)) ''cabi_init_tracing'',
            Resolve (LOAD_LIB sys (LIB_NAME p)) ''cabi_node_new'',
            Resolve (LOAD_LIB sys (LIB_NAME p)) ''cabi_node_listen'',
            Resolve (LOAD_LIB sys (LIB_NAME p)) ''cabi_node_dial'',
            Resolve (LOAD_LIB sys (LIB_NAME p)) ''cabi_node_free'',
            Close (LOAD_LIB sys (LIB_NAME p))]"
  by (simp add: main_loaded [OF assms(1)] resolutions_def is_Cerr_def)

theorem success_path_order_witness:
  "LOAD_LIB os_full (LIB_NAME WIN32) \<noteq> 0 \<and>
   fst (loadAbi os_full (LOAD_LIB os_full (LIB_NAME WIN32)) abi_init [Load (LIB_NAME WIN32)]) \<and>
   filter (\<lambda>e. \<not> is_Cerr e) (snd (main WIN32 os_full)) =
     [Load ''cabi_rust_libp2p.dll'',
      Resolve 7 ''cabi_init_tracing'', Resolve 7 ''cabi_node_new'',
      Resolve 7 ''cabi_node_listen'', Resolve 7 ''cabi_node_dial'',
      Resolve 7 ''cabi_node_free'', Close 7]"
proof -
  have l: "LOAD_LIB os_full path = 7" for path
    by (simp add: os_full_def)
  have h1: "LOAD_LIB os_full (LIB_NAME WIN32) \<noteq> 0"
    by (simp add: l)
  have h2: "fst (loadAbi os_full (LOAD_LIB os_full (LIB_NAME WIN32)) abi_init
              [Load (LIB_NAME WIN32)])"
    by (simp add: l loadAbi_eq os_full_all_resolved)
  from success_path_order [OF h1 h2] h1 h2 show ?thesis
    by (simp add: l LIB_NAME_def)
qed

end
